theory Spec2Isabelle
  imports Complex_Main "HOL-Library.AList"
begin

section \<open>Python values\<close>

text \<open>
  The pipeline passes JSON documents around as Python dictionaries. A value is one of the
  JSON types as \<open>json\<close> decodes them, or a \<open>datetime\<close> object (the loader puts those
  into the parameters of its INSERT). A dictionary is an association list with the keys
  in insertion order. Strings are \<open>string\<close>s holding the UTF-8 bytes.

  A float is an IEEE 754 double. A finite one is the rational number it denotes (the sign
  of a zero is not kept: nothing in this program tells the two zeros apart); the others
  are the two infinities and NaN, which the JSON decoder accepts as \<open>Infinity\<close>,
  \<open>-Infinity\<close> and \<open>NaN\<close>. An \<open>int\<close> is unbounded.
\<close>

datatype number = Finite rat | PosInf | NegInf | NaN

datatype pyval =
    PNone
  | PBool bool
  | PInt int
  | PFloat number
  | PStr string
  | PList "pyval list"
  | PDict "(string \<times> pyval) list"
  | PDatetime string

type_synonym pydict = "(string \<times> pyval) list"

datatype exn =
    TypeError
  | AttributeError
  | IndexError
  | KeyError
  | ValueError
  | OverflowError
  | UnboundLocalError
  | Psycopg2Error
  | RequestException
  | OtherException

definition try_bind :: "exn + 'a \<Rightarrow> ('a \<Rightarrow> exn + 'b) \<Rightarrow> exn + 'b" where
  "try_bind m f = (case m of Inl e \<Rightarrow> Inl e | Inr x \<Rightarrow> f x)"

text \<open>\<open>bool(v)\<close>: what \<open>if v\<close> and \<open>v and w\<close> test. NaN and the infinities are truthy.\<close>

fun truthy :: "pyval \<Rightarrow> bool" where
  "truthy PNone = False"
| "truthy (PBool b) = b"
| "truthy (PInt i) = (i \<noteq> 0)"
| "truthy (PFloat x) = (x \<noteq> Finite 0)"
| "truthy (PStr s) = (s \<noteq> [])"
| "truthy (PList xs) = (xs \<noteq> [])"
| "truthy (PDict kvs) = (kvs \<noteq> [])"
| "truthy (PDatetime s) = True"

text \<open>
  The finite number a value stands for; \<open>bool\<close> is a subclass of \<open>int\<close>. In a
  comparison an \<open>int\<close> and a float are compared by their exact values, so \<open>number_of\<close>
  does not round an \<open>int\<close>. Every type that is not a number raises \<open>TypeError\<close> in
  arithmetic and in a comparison with a number.
\<close>

fun num_val :: "pyval \<Rightarrow> rat option" where
  "num_val (PBool b) = Some (if b then 1 else 0)"
| "num_val (PInt i) = Some (of_int i)"
| "num_val (PFloat (Finite r)) = Some r"
| "num_val _ = None"

fun number_of :: "pyval \<Rightarrow> number option" where
  "number_of (PBool b) = Some (Finite (if b then 1 else 0))"
| "number_of (PInt i) = Some (Finite (of_int i))"
| "number_of (PFloat x) = Some x"
| "number_of _ = None"

text \<open>
  \<open>x < k\<close>, \<open>x <= k\<close> and \<open>k <= x\<close> for an integer constant \<open>k\<close>: every comparison
  with NaN is false.
\<close>

fun lt :: "number \<Rightarrow> int \<Rightarrow> bool" where
  "lt (Finite r) k = (r < of_int k)"
| "lt NegInf k = True"
| "lt PosInf k = False"
| "lt NaN k = False"

fun le :: "number \<Rightarrow> int \<Rightarrow> bool" where
  "le (Finite r) k = (r \<le> of_int k)"
| "le NegInf k = True"
| "le PosInf k = False"
| "le NaN k = False"

fun ge :: "number \<Rightarrow> int \<Rightarrow> bool" where
  "ge (Finite r) k = (of_int k \<le> r)"
| "ge NegInf k = False"
| "ge PosInf k = True"
| "ge NaN k = False"

text \<open>\<open>d.get(k)\<close>, \<open>d.get(k, default)\<close>, \<open>k in d\<close> and \<open>d[k] = v\<close>.\<close>

definition dict_get :: "pydict \<Rightarrow> string \<Rightarrow> pyval" where
  "dict_get d k = (case map_of d k of None \<Rightarrow> PNone | Some v \<Rightarrow> v)"

definition dict_get_default :: "pydict \<Rightarrow> string \<Rightarrow> pyval \<Rightarrow> pyval" where
  "dict_get_default d k dflt = (case map_of d k of None \<Rightarrow> dflt | Some v \<Rightarrow> v)"

definition dict_has :: "pydict \<Rightarrow> string \<Rightarrow> bool" where
  "dict_has d k = (map_of d k \<noteq> None)"

definition setitem :: "pydict \<Rightarrow> string \<Rightarrow> pyval \<Rightarrow> pydict" where
  "setitem d k v = AList.update k v d"

definition keys :: "pydict \<Rightarrow> string set" where
  "keys d = fst ` set d"


section \<open>Float arithmetic\<close>

text \<open>
  Every float operation gives the double nearest to the exact result, a tie going to the
  double whose last bit is even. The doubles around \<open>x\<close> are the multiples of
  \<open>ulp x\<close>, which is 2^(e - 52) when 2^e \<le> |x| < 2^(e + 1), and never less than
  2^(-1074), the smallest positive double. From 2^1024 - 2^970 on, halfway between the
  largest double and 2^1024, the result of an operation is an infinity, and the conversion
  of an \<open>int\<close> raises \<open>OverflowError\<close>.
\<close>

definition round_half_even :: "rat \<Rightarrow> int" where
  "round_half_even x =
     (if x - of_int (floor x) < 1 / 2 then floor x
      else if 1 / 2 < x - of_int (floor x) then floor x + 1
      else if even (floor x) then floor x else floor x + 1)"

text \<open>\<open>n.bit_length()\<close>\<close>

fun bit_length :: "nat \<Rightarrow> nat" where
  "bit_length n = (if n = 0 then 0 else Suc (bit_length (n div 2)))"

declare bit_length.simps [simp del]

text \<open>The \<open>e\<close> with 2^e \<le> |x| < 2^(e + 1), for \<open>x\<close> other than 0.\<close>

definition log2_floor :: "rat \<Rightarrow> int" where
  "log2_floor x =
     (if 1 \<le> \<bar>x\<bar> then int (bit_length (nat (floor \<bar>x\<bar>))) - 1
      else - int (bit_length (nat (ceiling (1 / \<bar>x\<bar>) - 1))))"

definition pow2 :: "int \<Rightarrow> rat" where
  "pow2 e = (if 0 \<le> e then 2 ^ nat e else 1 / 2 ^ nat (- e))"

definition ulp :: "rat \<Rightarrow> rat" where
  "ulp x = pow2 (max (log2_floor x - 52) (- 1074))"

definition nearest_double :: "rat \<Rightarrow> rat" where
  "nearest_double x = (if x = 0 then 0 else of_int (round_half_even (x / ulp x)) * ulp x)"

definition overflow_threshold :: rat where
  "overflow_threshold = 2 ^ 1024 - 2 ^ 970"

definition fl :: "rat \<Rightarrow> number" where
  "fl x = (if overflow_threshold \<le> x then PosInf
           else if x \<le> - overflow_threshold then NegInf
           else Finite (nearest_double x))"

text \<open>The float that a decimal literal such as \<open>26.2\<close> denotes.\<close>

definition float_lit :: "rat \<Rightarrow> pyval" where
  "float_lit x = PFloat (fl x)"

fun float_neg :: "number \<Rightarrow> number" where
  "float_neg (Finite a) = Finite (- a)"
| "float_neg PosInf = NegInf"
| "float_neg NegInf = PosInf"
| "float_neg NaN = NaN"

fun float_add :: "number \<Rightarrow> number \<Rightarrow> number" where
  "float_add (Finite a) (Finite b) = fl (a + b)"
| "float_add (Finite a) PosInf = PosInf"
| "float_add (Finite a) NegInf = NegInf"
| "float_add PosInf (Finite b) = PosInf"
| "float_add NegInf (Finite b) = NegInf"
| "float_add PosInf PosInf = PosInf"
| "float_add NegInf NegInf = NegInf"
| "float_add PosInf NegInf = NaN"
| "float_add NegInf PosInf = NaN"
| "float_add NaN y = NaN"
| "float_add (Finite a) NaN = NaN"
| "float_add PosInf NaN = NaN"
| "float_add NegInf NaN = NaN"

definition float_sub :: "number \<Rightarrow> number \<Rightarrow> number" where
  "float_sub x y = float_add x (float_neg y)"

text \<open>The sign of an infinite product; zero times an infinity is NaN.\<close>

definition signed_inf :: "bool \<Rightarrow> number" where
  "signed_inf positive = (if positive then PosInf else NegInf)"

fun float_mul :: "number \<Rightarrow> number \<Rightarrow> number" where
  "float_mul (Finite a) (Finite b) = fl (a * b)"
| "float_mul (Finite a) PosInf = (if a = 0 then NaN else signed_inf (0 < a))"
| "float_mul (Finite a) NegInf = (if a = 0 then NaN else signed_inf (a < 0))"
| "float_mul PosInf (Finite b) = (if b = 0 then NaN else signed_inf (0 < b))"
| "float_mul NegInf (Finite b) = (if b = 0 then NaN else signed_inf (b < 0))"
| "float_mul PosInf PosInf = PosInf"
| "float_mul NegInf NegInf = PosInf"
| "float_mul PosInf NegInf = NegInf"
| "float_mul NegInf PosInf = NegInf"
| "float_mul NaN y = NaN"
| "float_mul (Finite a) NaN = NaN"
| "float_mul PosInf NaN = NaN"
| "float_mul NegInf NaN = NaN"

text \<open>
  The float operand that a value becomes in mixed arithmetic: an \<open>int\<close> is rounded
  to the nearest double and raises when it is too large for one.
\<close>

fun to_float :: "pyval \<Rightarrow> exn + number" where
  "to_float (PBool b) = Inr (Finite (if b then 1 else 0))"
| "to_float (PInt i) =
     (case fl (of_int i) of Finite x \<Rightarrow> Inr (Finite x) | _ \<Rightarrow> Inl OverflowError)"
| "to_float (PFloat x) = Inr x"
| "to_float _ = Inl TypeError"

text \<open>\<open>v - k\<close> for an \<open>int\<close> constant \<open>k\<close>: exact on an \<open>int\<close>.\<close>

fun sub_int :: "pyval \<Rightarrow> int \<Rightarrow> exn + pyval" where
  "sub_int (PBool b) k = Inr (PInt ((if b then 1 else 0) - k))"
| "sub_int (PInt i) k = Inr (PInt (i - k))"
| "sub_int (PFloat x) k = Inr (PFloat (float_sub x (Finite (of_int k))))"
| "sub_int _ k = Inl TypeError"

text \<open>\<open>c * v\<close> and \<open>v + c\<close> for a float \<open>c\<close>.\<close>

definition mul_float :: "number \<Rightarrow> pyval \<Rightarrow> exn + number" where
  "mul_float c v = try_bind (to_float v) (\<lambda>x. Inr (float_mul c x))"

definition add_float :: "pyval \<Rightarrow> number \<Rightarrow> exn + number" where
  "add_float v c = try_bind (to_float v) (\<lambda>x. Inr (float_add x c))"

text \<open>
  \<open>round(x, 2)\<close> on a float: the exact value of \<open>x\<close> is rounded to the nearest multiple
  of 1/100, a tie to the even one, and the result is the double nearest to that decimal.
  An infinity and NaN round to themselves.
\<close>

fun py_round2 :: "number \<Rightarrow> exn + number" where
  "py_round2 (Finite x) =
     (case fl (of_int (round_half_even (x * 100)) / 100) of
        Finite y \<Rightarrow> Inr (Finite y)
      | _ \<Rightarrow> Inl OverflowError)"
| "py_round2 x = Inr x"


section \<open>Transformer: derived fields\<close>

text \<open>
  \<open>WeatherTransformer.add_derived_fields\<close> (src/etl/transform.py, 173-217). The body
  runs in a \<open>try\<close> whose handler returns \<open>data\<close>; \<open>data\<close> is updated in place, so the
  handler returns it with the assignments made before the exception. Each of the three
  steps is a function to \<open>exn + pydict\<close>.
\<close>

text \<open>\<open>round(temp + (0.5 * (humidity - 50)), 2)\<close>\<close>

definition heat_index :: "pyval \<Rightarrow> pyval \<Rightarrow> exn + pyval" where
  "heat_index temp humidity =
     try_bind (sub_int humidity 50) (\<lambda>difference.
     try_bind (mul_float (Finite (1 / 2)) difference) (\<lambda>product.
     try_bind (add_float temp product) (\<lambda>total.
     try_bind (py_round2 total) (\<lambda>rounded. Inr (PFloat rounded)))))"

definition set_heat_index :: "pyval \<Rightarrow> pyval \<Rightarrow> pydict \<Rightarrow> exn + pydict" where
  "set_heat_index temp humidity data =
     (if truthy temp \<and> truthy humidity then
        try_bind (heat_index temp humidity) (\<lambda>v. Inr (setitem data ''heat_index'' v))
      else Inr data)"

definition temperature_category :: "number \<Rightarrow> string" where
  "temperature_category t =
     (if lt t 10 then ''Frio''
      else if le t 25 then ''Ameno''
      else if le t 35 then ''Quente''
      else ''Muito Quente'')"

definition set_temperature_category :: "pyval \<Rightarrow> pydict \<Rightarrow> exn + pydict" where
  "set_temperature_category temp data =
     (if temp \<noteq> PNone then
        (case number_of temp of
           Some t \<Rightarrow> Inr (setitem data ''temperature_category'' (PStr (temperature_category t)))
         | None \<Rightarrow> Inl TypeError)
      else Inr data)"

definition humidity_category :: "number \<Rightarrow> string" where
  "humidity_category h =
     (if le h 30 then ''Baixa''
      else if lt h 60 then ''Moderada''
      else ''Alta'')"

definition set_humidity_category :: "pyval \<Rightarrow> pydict \<Rightarrow> exn + pydict" where
  "set_humidity_category humidity data =
     (if humidity \<noteq> PNone then
        (case number_of humidity of
           Some h \<Rightarrow> Inr (setitem data ''humidity_category'' (PStr (humidity_category h)))
         | None \<Rightarrow> Inl TypeError)
      else Inr data)"

definition add_derived_fields :: "pydict \<Rightarrow> pydict" where
  "add_derived_fields data =
     (let temp = dict_get_default data ''temperature'' (PInt 0);
          humidity = dict_get_default data ''humidity'' (PInt 0)
      in case set_heat_index temp humidity data of
           Inl e \<Rightarrow> data
         | Inr d1 \<Rightarrow>
             (case set_temperature_category temp d1 of
                Inl e \<Rightarrow> d1
              | Inr d2 \<Rightarrow>
                  (case set_humidity_category humidity d2 of
                     Inl e \<Rightarrow> d2
                   | Inr d3 \<Rightarrow> d3)))"

text \<open>The fixture \<open>sample_transformed_data\<close> of src/tests/conftest.py.\<close>

definition sao_paulo :: string where
  "sao_paulo = ''S'' @ [CHR 0xC3, CHR 0xA3] @ ''o Paulo''"

definition sample_transformed_data :: pydict where
  "sample_transformed_data =
     [(''city_name'', PStr sao_paulo),
      (''temperature'', PFloat (Finite (51 / 2))),
      (''data_timestamp'', PStr ''2024-01-01T10:00:00''),
      (''processed_at'', PStr ''2024-01-01T10:10:00''),
      (''humidity'', PInt 65),
      (''heat_index'', PFloat (Finite 33)),
      (''temperature_category'', PStr ''Quente''),
      (''humidity_category'', PStr ''Moderada'')]"

definition derived_keys :: "string set" where
  "derived_keys = {''heat_index'', ''temperature_category'', ''humidity_category''}"


section \<open>Dates and times\<close>

text \<open>
  \<open>datetime.fromtimestamp(ts)\<close> without a time zone gives the naive local time of the
  process, and \<open>isoformat()\<close> prints it as \<open>YYYY-MM-DDTHH:MM:SS\<close>, followed by
  \<open>.ffffff\<close> when the microseconds are not zero. The local zone is a parameter: the UTC
  offset in seconds that the zone has at a given epoch second. The day number (days since
  1970-01-01) is turned into a date of the proleptic Gregorian calendar by counting in
  eras of 400 years that start on a 1st of March; years outside 1..9999 raise.
\<close>

definition digit :: "nat \<Rightarrow> char" where
  "digit n = ''0123456789'' ! (n mod 10)"

definition pad2 :: "nat \<Rightarrow> string" where
  "pad2 n = [digit (n div 10), digit n]"

definition pad4 :: "nat \<Rightarrow> string" where
  "pad4 n = [digit (n div 1000), digit (n div 100), digit (n div 10), digit n]"

definition pad6 :: "nat \<Rightarrow> string" where
  "pad6 n = [digit (n div 100000), digit (n div 10000), digit (n div 1000),
             digit (n div 100), digit (n div 10), digit n]"

definition day_of_era :: "int \<Rightarrow> int" where
  "day_of_era days = (days + 719468) mod 146097"

definition year_of_era :: "int \<Rightarrow> int" where
  "year_of_era doe = (doe - doe div 1460 + doe div 36524 - doe div 146096) div 365"

definition day_of_year :: "int \<Rightarrow> int" where
  "day_of_year doe =
     doe - (365 * year_of_era doe + year_of_era doe div 4 - year_of_era doe div 100)"

definition month_of :: "int \<Rightarrow> int" where
  "month_of doy =
     (if (5 * doy + 2) div 153 < 10 then (5 * doy + 2) div 153 + 3
      else (5 * doy + 2) div 153 - 9)"

definition day_of_month :: "int \<Rightarrow> int" where
  "day_of_month doy = doy - (153 * ((5 * doy + 2) div 153) + 2) div 5 + 1"

definition year_of :: "int \<Rightarrow> int" where
  "year_of days =
     year_of_era (day_of_era days) + (days + 719468) div 146097 * 400
     + (if month_of (day_of_year (day_of_era days)) \<le> 2 then 1 else 0)"

definition civil_from_days :: "int \<Rightarrow> int \<times> int \<times> int" where
  "civil_from_days days =
     (year_of days, month_of (day_of_year (day_of_era days)),
      day_of_month (day_of_year (day_of_era days)))"

definition date_string :: "int \<times> int \<times> int \<Rightarrow> string" where
  "date_string ymd =
     pad4 (nat (fst ymd)) @ ''-'' @ pad2 (nat (fst (snd ymd))) @ ''-''
     @ pad2 (nat (snd (snd ymd)))"

definition time_string :: "nat \<Rightarrow> nat \<Rightarrow> string" where
  "time_string sod micro =
     pad2 (sod div 3600) @ '':'' @ pad2 (sod div 60 mod 60) @ '':'' @ pad2 (sod mod 60)
     @ (if micro = 0 then [] else ''.'' @ pad6 micro)"

text \<open>The naive date and time that is \<open>us\<close> microseconds after 1970-01-01T00:00:00.\<close>

definition isoformat :: "int \<Rightarrow> exn + string" where
  "isoformat us =
     (if year_of (us div 1000000 div 86400) < 1 \<or> 9999 < year_of (us div 1000000 div 86400)
      then Inl ValueError
      else Inr (date_string (civil_from_days (us div 1000000 div 86400)) @ ''T''
                @ time_string (nat (us div 1000000 mod 86400)) (nat (us mod 1000000))))"

text \<open>
  The local time of the instant \<open>us\<close> in the zone \<open>tz\<close>. The library also converts the
  instant 24 hours earlier, to detect a repeated hour, and raises when that one is out of
  range.
\<close>

definition local_isoformat :: "(int \<Rightarrow> int) \<Rightarrow> int \<Rightarrow> exn + pyval" where
  "local_isoformat tz us =
     (case isoformat ((us div 1000000 - 86400 + tz (us div 1000000 - 86400)) * 1000000) of
        Inl e \<Rightarrow> Inl e
      | Inr probe \<Rightarrow>
          (case isoformat (us + tz (us div 1000000) * 1000000) of
             Inl e \<Rightarrow> Inl e
           | Inr s \<Rightarrow> Inr (PStr s)))"

text \<open>
  \<open>datetime.fromtimestamp(v).isoformat()\<close>. An \<open>int\<close> is a number of seconds. A
  float is split into its integral and its fractional part; the fractional part is
  multiplied by 1000000 as a float and rounded to an integer, a tie to the even one. An
  infinity raises \<open>OverflowError\<close>, NaN \<open>ValueError\<close>, and anything that is not a
  number \<open>TypeError\<close>.
\<close>

definition truncate :: "rat \<Rightarrow> int" where
  "truncate x = (if 0 \<le> x then floor x else ceiling x)"

definition microseconds :: "rat \<Rightarrow> int" where
  "microseconds x =
     truncate x * 1000000
     + round_half_even (nearest_double ((x - of_int (truncate x)) * 1000000))"

fun fromtimestamp_isoformat :: "(int \<Rightarrow> int) \<Rightarrow> pyval \<Rightarrow> exn + pyval" where
  "fromtimestamp_isoformat tz (PBool b) = local_isoformat tz ((if b then 1 else 0) * 1000000)"
| "fromtimestamp_isoformat tz (PInt i) = local_isoformat tz (i * 1000000)"
| "fromtimestamp_isoformat tz (PFloat (Finite x)) = local_isoformat tz (microseconds x)"
| "fromtimestamp_isoformat tz (PFloat NaN) = Inl ValueError"
| "fromtimestamp_isoformat tz (PFloat PosInf) = Inl OverflowError"
| "fromtimestamp_isoformat tz (PFloat NegInf) = Inl OverflowError"
| "fromtimestamp_isoformat tz v = Inl TypeError"

declare fromtimestamp_isoformat.simps [simp del]

text \<open>\<open>datetime.now(timezone.utc).isoformat()\<close> when the clock shows \<open>us\<close>.\<close>

definition utc_isoformat :: "int \<Rightarrow> string" where
  "utc_isoformat us = (case isoformat us of Inl e \<Rightarrow> [] | Inr s \<Rightarrow> s @ ''+00:00'')"

definition utc :: "int \<Rightarrow> int" where
  "utc secs = 0"

definition brt :: "int \<Rightarrow> int" where
  "brt secs = - 10800"


section \<open>Transformer: the canonical record\<close>

text \<open>
  \<open>WeatherTransformer.transform_weather_data\<close> and \<open>_validate_transformed_data\<close>
  (src/etl/transform.py, 22-146). The whole body runs in a \<open>try\<close> whose handler returns
  \<open>None\<close>, so every exception of the body is an \<open>Inl\<close> here and \<open>None\<close> in the end.
  \<open>v.get(k)\<close> needs \<open>v\<close> to be a dictionary and raises \<open>AttributeError\<close> on any other
  JSON value; the source calls \<open>get\<close> on each of the six sections at least once, so the
  model turns each section into a dictionary first. \<open>v[0]\<close> is the first element of a
  list, the first character of a string, \<open>KeyError\<close> on a dictionary (JSON keys are
  strings) and \<open>TypeError\<close> on the rest.
\<close>

fun as_dict :: "pyval \<Rightarrow> exn + pydict" where
  "as_dict (PDict d) = Inr d"
| "as_dict _ = Inl AttributeError"

fun subscript0 :: "pyval \<Rightarrow> exn + pyval" where
  "subscript0 (PList []) = Inl IndexError"
| "subscript0 (PList (x # xs)) = Inr x"
| "subscript0 (PStr []) = Inl IndexError"
| "subscript0 (PStr (c # cs)) = Inr (PStr [c])"
| "subscript0 (PDict d) = Inl KeyError"
| "subscript0 _ = Inl TypeError"

text \<open>\<open>fromtimestamp(d.get(k, 0)).isoformat() if d.get(k) else None\<close>\<close>

definition optional_timestamp :: "(int \<Rightarrow> int) \<Rightarrow> pydict \<Rightarrow> string \<Rightarrow> exn + pyval" where
  "optional_timestamp tz d k =
     (if truthy (dict_get d k) then fromtimestamp_isoformat tz (dict_get_default d k (PInt 0))
      else Inr PNone)"

definition required_fields :: "string list" where
  "required_fields =
     [''city_name'', ''country_code'', ''temperature'', ''humidity'', ''pressure'',
      ''weather_main'']"

text \<open>\<open>lo <= v <= hi\<close> for integer constants \<open>lo\<close> and \<open>hi\<close>.\<close>

definition between :: "int \<Rightarrow> pyval \<Rightarrow> int \<Rightarrow> exn + bool" where
  "between lo v hi =
     (case number_of v of
        None \<Rightarrow> Inl TypeError
      | Some x \<Rightarrow> Inr (ge x lo \<and> le x hi))"

definition validate_transformed_data :: "pydict \<Rightarrow> exn + bool" where
  "validate_transformed_data data =
     (if \<exists>field \<in> set required_fields. dict_get data field = PNone then Inr False
      else try_bind (between (- 100) (dict_get_default data ''temperature'' (PInt 0)) 60)
        (\<lambda>temperature_ok.
           if \<not> temperature_ok then Inr False
           else try_bind (between 0 (dict_get_default data ''humidity'' (PInt 0)) 100)
             (\<lambda>humidity_ok. if \<not> humidity_ok then Inr False else Inr True)))"

definition transformed_data :: "(int \<Rightarrow> int) \<Rightarrow> string \<Rightarrow> pydict \<Rightarrow> exn + pydict" where
  "transformed_data tz now raw_data =
     try_bind (as_dict (dict_get_default raw_data ''main'' (PDict []))) (\<lambda>main_data.
     try_bind (subscript0 (dict_get_default raw_data ''weather'' (PList [PDict []]))) (\<lambda>w.
     try_bind (as_dict w) (\<lambda>weather_data.
     try_bind (as_dict (dict_get_default raw_data ''wind'' (PDict []))) (\<lambda>wind_data.
     try_bind (as_dict (dict_get_default raw_data ''clouds'' (PDict []))) (\<lambda>clouds_data.
     try_bind (as_dict (dict_get_default raw_data ''sys'' (PDict []))) (\<lambda>sys_data.
     try_bind (as_dict (dict_get_default raw_data ''coord'' (PDict []))) (\<lambda>coord_data.
     try_bind (fromtimestamp_isoformat tz (dict_get_default raw_data ''dt'' (PInt 0)))
       (\<lambda>data_timestamp.
     try_bind (optional_timestamp tz sys_data ''sunrise'') (\<lambda>sunrise.
     try_bind (optional_timestamp tz sys_data ''sunset'') (\<lambda>sunset.
     Inr [(''city_id'', dict_get raw_data ''id''),
          (''city_name'', dict_get raw_data ''name''),
          (''country_code'', dict_get sys_data ''country''),
          (''latitude'', dict_get coord_data ''lat''),
          (''longitude'', dict_get coord_data ''lon''),
          (''temperature'', dict_get main_data ''temp''),
          (''temperature_feels_like'', dict_get main_data ''feels_like''),
          (''temperature_min'', dict_get main_data ''temp_min''),
          (''temperature_max'', dict_get main_data ''temp_max''),
          (''pressure'', dict_get main_data ''pressure''),
          (''humidity'', dict_get main_data ''humidity''),
          (''sea_level_pressure'', dict_get main_data ''sea_level''),
          (''ground_level_pressure'', dict_get main_data ''grnd_level''),
          (''weather_main'', dict_get weather_data ''main''),
          (''weather_description'', dict_get weather_data ''description''),
          (''weather_icon'', dict_get weather_data ''icon''),
          (''wind_speed'', dict_get wind_data ''speed''),
          (''wind_direction'', dict_get wind_data ''deg''),
          (''wind_gust'', dict_get wind_data ''gust''),
          (''cloudiness'', dict_get clouds_data ''all''),
          (''visibility'', dict_get raw_data ''visibility''),
          (''data_timestamp'', data_timestamp),
          (''sunrise'', sunrise),
          (''sunset'', sunset),
          (''extracted_at'', dict_get raw_data ''extracted_at''),
          (''processed_at'', PStr now),
          (''timezone_offset'', dict_get raw_data ''timezone'')]))))))))))"

text \<open>
  \<open>tz\<close> is the local zone of the process and \<open>now\<close> what
  \<open>datetime.now(timezone.utc).isoformat()\<close> returns during the call.
\<close>

definition transform_weather_data :: "(int \<Rightarrow> int) \<Rightarrow> string \<Rightarrow> pydict \<Rightarrow> pydict option" where
  "transform_weather_data tz now raw_data =
     (if raw_data = [] \<or> \<not> dict_has raw_data ''main'' then None
      else case transformed_data tz now raw_data of
             Inl e \<Rightarrow> None
           | Inr data \<Rightarrow>
               (case validate_transformed_data data of
                  Inl e \<Rightarrow> None
                | Inr ok \<Rightarrow> if \<not> ok then None else Some data))"

text \<open>The payload \<open>sample_data\<close> of \<open>main()\<close> in src/etl/transform.py.\<close>

definition sample_data :: pydict where
  "sample_data =
     [(''coord'', PDict [(''lon'', float_lit (- 466361 / 10000)), (''lat'', float_lit (- 235475 / 10000))]),
      (''weather'', PList [PDict [(''id'', PInt 800), (''main'', PStr ''Clear''),
          (''description'', PStr (''c'' @ [CHR 0xC3, CHR 0xA9] @ ''u limpo'')),
          (''icon'', PStr ''01d'')]]),
      (''base'', PStr ''stations''),
      (''main'', PDict [(''temp'', PFloat (Finite (51 / 2))), (''feels_like'', float_lit (131 / 5)),
          (''temp_min'', float_lit (231 / 10)), (''temp_max'', float_lit (283 / 10)),
          (''pressure'', PInt 1013), (''humidity'', PInt 65)]),
      (''visibility'', PInt 10000),
      (''wind'', PDict [(''speed'', PFloat (Finite (7 / 2))), (''deg'', PInt 180)]),
      (''clouds'', PDict [(''all'', PInt 0)]),
      (''dt'', PInt 1640995200),
      (''sys'', PDict [(''type'', PInt 1), (''id'', PInt 8394), (''country'', PStr ''BR''),
          (''sunrise'', PInt 1640944800), (''sunset'', PInt 1640995200)]),
      (''timezone'', PInt (- 10800)),
      (''id'', PInt 3448439),
      (''name'', PStr sao_paulo),
      (''cod'', PInt 200),
      (''extracted_at'', PStr ''2024-01-01T12:00:00'')]"


text \<open>A payload that is complete except that the city name is the empty string.\<close>

definition empty_name_payload :: pydict where
  "empty_name_payload =
     [(''name'', PStr []),
      (''main'', PDict [(''temp'', PInt 20), (''humidity'', PInt 50), (''pressure'', PInt 1013)]),
      (''weather'', PList [PDict [(''main'', PStr ''Clear'')]]),
      (''sys'', PDict [(''country'', PStr ''BR'')]),
      (''dt'', PInt 1640995200)]"

definition field :: "string \<Rightarrow> pydict option \<Rightarrow> pyval option" where
  "field k r = (case r of None \<Rightarrow> None | Some d \<Rightarrow> map_of d k)"


section \<open>Transformer: city names\<close>
















section \<open>The outside world\<close>

text \<open>
  The provider, the clock, the local time zone and the database are not part of the
  program. They are functions the pipeline asks: the answers may change from one call to
  the next, so each question carries the number of calls made so far (the \<open>tick\<close> of
  the state; every extraction, connection attempt, schema creation and insert advances it
  by one).
\<close>

datatype http_response =
    ConnectionFailed
  | HttpStatusError nat
  | InvalidJson
  | Body pyval

datatype db_result = Done | DbError | OtherError

datatype statement = CreateTables | Insert pydict

record env =
  http_get :: "nat \<Rightarrow> string \<Rightarrow> http_response"
  clock :: "nat \<Rightarrow> int"
  utcoffset :: "int \<Rightarrow> int"
  fromisoformat_ok :: "string \<Rightarrow> bool"
  db_connect :: "nat \<Rightarrow> db_result"
  db_cursor :: "nat \<Rightarrow> db_result"
  db_execute :: "nat \<Rightarrow> statement \<Rightarrow> db_result"

text \<open>\<open>datetime.now(timezone.utc).isoformat()\<close> at a tick; the clock counts microseconds.\<close>

definition now_utc :: "env \<Rightarrow> nat \<Rightarrow> string" where
  "now_utc e t = utc_isoformat (clock e t)"

section \<open>Extractor\<close>

text \<open>
  \<open>WeatherExtractor.extract_weather_data\<close> (src/etl/extract.py, 31-76). A failed
  request, a status that \<open>raise_for_status\<close> rejects and a body that is not JSON raise
  inside \<open>requests\<close>; a JSON body that is not an object raises \<open>TypeError\<close> at the
  assignment of \<open>extracted_at\<close>. The three handlers return \<open>None\<close> for all of them.
\<close>

definition fetch :: "env \<Rightarrow> nat \<Rightarrow> string \<Rightarrow> string \<Rightarrow> exn + pydict" where
  "fetch e t city country_code =
     (case http_get e t (city @ '','' @ country_code) of
        ConnectionFailed \<Rightarrow> Inl RequestException
      | HttpStatusError code \<Rightarrow> Inl RequestException
      | InvalidJson \<Rightarrow> Inl RequestException
      | Body (PDict weather_data) \<Rightarrow>
          Inr (setitem weather_data ''extracted_at'' (PStr (now_utc e t)))
      | Body other \<Rightarrow> Inl TypeError)"

definition extract_weather_data :: "env \<Rightarrow> nat \<Rightarrow> string \<Rightarrow> string \<Rightarrow> pydict option" where
  "extract_weather_data e t city country_code =
     (case fetch e t city country_code of Inl ex \<Rightarrow> None | Inr weather_data \<Rightarrow> Some weather_data)"

text \<open>
  \<open>extract_multiple_cities\<close> (src/etl/extract.py, 78-97): one request per city, in
  order, the country code left at its default. \<open>if data\<close> is false for \<open>None\<close> and for
  an empty dictionary.
\<close>

fun extract_cities :: "env \<Rightarrow> nat \<Rightarrow> (string \<times> pydict) list \<Rightarrow> string list \<Rightarrow> (string \<times> pydict) list" where
  "extract_cities e t results [] = results"
| "extract_cities e t results (city # cities) =
     (case extract_weather_data e t city ''BR'' of
        None \<Rightarrow> extract_cities e (Suc t) results cities
      | Some data \<Rightarrow>
          if data \<noteq> [] then extract_cities e (Suc t) (AList.update city data results) cities
          else extract_cities e (Suc t) results cities)"

definition extract_multiple_cities :: "env \<Rightarrow> nat \<Rightarrow> string list \<Rightarrow> (string \<times> pydict) list" where
  "extract_multiple_cities e t cities = extract_cities e t [] cities"

section \<open>Loader\<close>

text \<open>
  The state of a pipeline object and of the store behind it. \<open>connection\<close> tells
  whether \<open>loader.connection\<close> holds a connection object (it is \<open>None\<close> at first);
  \<open>rows\<close> are the parameter dictionaries of the inserts the store accepted, oldest first.
\<close>

record stats =
  total_runs :: nat
  successful_extractions :: nat
  failed_extractions :: nat
  successful_loads :: nat
  failed_loads :: nat
  last_run :: "string option"
  last_success :: "string option"

record pipeline =
  cities :: "string list"
  stats :: stats
  connection :: bool
  tick :: nat
  rows :: "pydict list"

text \<open>\<open>ts_str.replace("Z", "+00:00")\<close>\<close>

definition replace_Z :: "string \<Rightarrow> string" where
  "replace_Z s = concat (map (\<lambda>c. if c = CHR ''Z'' then ''+00:00'' else [c]) s)"

text \<open>
  \<open>parse_timestamp\<close> inside \<open>_prepare_data_for_insert\<close> (src/etl/load.py, 177-211):
  the bare \<open>except\<close> turns every failure into \<open>None\<close>, the one of \<open>replace\<close> on a value
  that is not a string as well as the one of \<open>fromisoformat\<close>.
\<close>

definition parse_timestamp :: "env \<Rightarrow> pyval \<Rightarrow> pyval" where
  "parse_timestamp e ts_str =
     (if truthy ts_str then
        (case ts_str of
           PStr s \<Rightarrow> if fromisoformat_ok e (replace_Z s) then PDatetime (replace_Z s) else PNone
         | _ \<Rightarrow> PNone)
      else PNone)"

definition timestamp_fields :: "string list" where
  "timestamp_fields = [''data_timestamp'', ''sunrise'', ''sunset'', ''extracted_at'', ''processed_at'']"

fun convert_timestamps :: "env \<Rightarrow> string list \<Rightarrow> pydict \<Rightarrow> pydict" where
  "convert_timestamps e [] prepared_data = prepared_data"
| "convert_timestamps e (f # fs) prepared_data =
     (if dict_has prepared_data f
      then convert_timestamps e fs (setitem prepared_data f (parse_timestamp e (dict_get prepared_data f)))
      else convert_timestamps e fs prepared_data)"

definition prepare_data_for_insert :: "env \<Rightarrow> pydict \<Rightarrow> pydict" where
  "prepare_data_for_insert e data = convert_timestamps e timestamp_fields data"

text \<open>
  \<open>WeatherLoader.load_weather_data\<close> (src/etl/load.py, 124-175). Both handlers return
  \<open>False\<close>, and then the \<open>finally\<close> clause reads \<open>cursor\<close>. When
  \<open>self.connection.cursor()\<close> itself raised (no connection object, or a connection that
  is closed or lost), \<open>cursor\<close> was never bound: the \<open>finally\<close> clause raises
  \<open>UnboundLocalError\<close>, which replaces the return value and leaves the function.
\<close>

definition load_weather_data :: "env \<Rightarrow> pipeline \<Rightarrow> pydict \<Rightarrow> (exn + bool) \<times> pipeline" where
  "load_weather_data e s data =
     (if \<not> connection s then (Inl UnboundLocalError, s)
      else case db_cursor e (tick s) of
             Done \<Rightarrow>
               (case db_execute e (tick s) (Insert (prepare_data_for_insert e data)) of
                  Done \<Rightarrow>
                    (Inr True,
                     s\<lparr>tick := Suc (tick s), rows := rows s @ [prepare_data_for_insert e data]\<rparr>)
                | DbError \<Rightarrow> (Inr False, s\<lparr>tick := Suc (tick s)\<rparr>)
                | OtherError \<Rightarrow> (Inr False, s\<lparr>tick := Suc (tick s)\<rparr>))
           | DbError \<Rightarrow> (Inl UnboundLocalError, s\<lparr>tick := Suc (tick s)\<rparr>)
           | OtherError \<Rightarrow> (Inl UnboundLocalError, s\<lparr>tick := Suc (tick s)\<rparr>))"

text \<open>
  \<open>load_multiple_records\<close> (src/etl/load.py, 213-230) has no handler of its own: an
  exception of \<open>load_weather_data\<close> ends the loop.
\<close>

fun load_records :: "env \<Rightarrow> pipeline \<Rightarrow> nat \<Rightarrow> pydict list \<Rightarrow> (exn + nat) \<times> pipeline" where
  "load_records e s success_count [] = (Inr success_count, s)"
| "load_records e s success_count (data # data_list) =
     (case load_weather_data e s data of
        (Inl ex, s') \<Rightarrow> (Inl ex, s')
      | (Inr ok, s') \<Rightarrow>
          load_records e s' (if ok then success_count + 1 else success_count) data_list)"

definition load_multiple_records :: "env \<Rightarrow> pipeline \<Rightarrow> pydict list \<Rightarrow> (exn + nat) \<times> pipeline" where
  "load_multiple_records e s data_list = load_records e s 0 data_list"


section \<open>Pipeline\<close>




definition count_failed_extraction :: "pipeline \<Rightarrow> pipeline" where
  "count_failed_extraction s =
     s\<lparr>stats := (stats s)\<lparr>failed_extractions := failed_extractions (stats s) + 1\<rparr>\<rparr>"

definition count_successful_extraction :: "pipeline \<Rightarrow> pipeline" where
  "count_successful_extraction s =
     s\<lparr>stats := (stats s)\<lparr>successful_extractions := successful_extractions (stats s) + 1\<rparr>\<rparr>"

definition count_failed_load :: "pipeline \<Rightarrow> pipeline" where
  "count_failed_load s =
     s\<lparr>stats := (stats s)\<lparr>failed_loads := failed_loads (stats s) + 1\<rparr>\<rparr>"

definition count_successful_load :: "pipeline \<Rightarrow> pipeline" where
  "count_successful_load s =
     s\<lparr>stats := (stats s)\<lparr>successful_loads := successful_loads (stats s) + 1\<rparr>\<rparr>"

text \<open>
  \<open>run_etl_for_city\<close> (86-132). \<open>not raw_data\<close> and \<open>not transformed_data\<close> are
  true for \<open>None\<close> and for an empty dictionary. An exception can only come out of the
  load step; the handler of the method returns \<open>False\<close> and counts nothing.
\<close>

definition load_step :: "env \<Rightarrow> pipeline \<Rightarrow> pydict \<Rightarrow> bool \<times> pipeline" where
  "load_step e s final_data =
     (case load_weather_data e s final_data of
        (Inl ex, s') \<Rightarrow> (False, s')
      | (Inr False, s') \<Rightarrow> (False, count_failed_load s')
      | (Inr True, s') \<Rightarrow> (True, count_successful_load s'))"

definition transform_step :: "env \<Rightarrow> pipeline \<Rightarrow> pydict \<Rightarrow> bool \<times> pipeline" where
  "transform_step e s raw_data =
     (case transform_weather_data (utcoffset e) (now_utc e (tick s)) raw_data of
        None \<Rightarrow> (False, s)
      | Some transformed \<Rightarrow>
          if transformed = [] then (False, s)
          else load_step e s (add_derived_fields transformed))"

definition run_etl_for_city :: "env \<Rightarrow> pipeline \<Rightarrow> string \<Rightarrow> bool \<times> pipeline" where
  "run_etl_for_city e s city =
     (case extract_weather_data e (tick s) city ''BR'' of
        None \<Rightarrow> (False, count_failed_extraction (s\<lparr>tick := Suc (tick s)\<rparr>))
      | Some raw_data \<Rightarrow>
          if raw_data = [] then (False, count_failed_extraction (s\<lparr>tick := Suc (tick s)\<rparr>))
          else transform_step e (count_successful_extraction (s\<lparr>tick := Suc (tick s)\<rparr>)) raw_data)"












text \<open>A pipeline as \<open>__init__\<close> leaves it (34-61).\<close>

definition new_pipeline :: "string list \<Rightarrow> pipeline" where
  "new_pipeline cs =
     \<lparr>cities = cs,
      stats = \<lparr>total_runs = 0, successful_extractions = 0, failed_extractions = 0,
               successful_loads = 0, failed_loads = 0, last_run = None, last_success = None\<rparr>,
      connection = False, tick = 0, rows = []\<rparr>"

section \<open>Example worlds\<close>

text \<open>
  The mocks of src/tests/conftest.py: the provider knows one city, for which it answers
  with a short body, and answers 401 for every other; the database accepts everything.
\<close>

definition mock_response :: "nat \<Rightarrow> string \<Rightarrow> http_response" where
  "mock_response t q =
     (if takeWhile (\<lambda>c. c \<noteq> CHR '','') q = sao_paulo
      then Body (PDict [(''name'', PStr sao_paulo), (''main'', PDict [(''temp'', PFloat (Finite (51 / 2)))]),
                        (''cod'', PInt 200)])
      else HttpStatusError 401)"

definition accept_all :: "nat \<Rightarrow> db_result" where
  "accept_all t = Done"

definition execute_all :: "nat \<Rightarrow> statement \<Rightarrow> db_result" where
  "execute_all t st = Done"

definition any_iso :: "string \<Rightarrow> bool" where
  "any_iso s = True"

definition wall_clock :: "nat \<Rightarrow> int" where
  "wall_clock t = 1704110400000000 + int t * 1000000"

definition mock_env :: env where
  "mock_env =
     \<lparr>http_get = mock_response, clock = wall_clock, utcoffset = utc, fromisoformat_ok = any_iso,
      db_connect = accept_all, db_cursor = accept_all, db_execute = execute_all\<rparr>"

text \<open>
  A provider that answers with the complete payload \<open>sample_data\<close> for the one city and
  with 404 for every other.
\<close>

definition full_response :: "nat \<Rightarrow> string \<Rightarrow> http_response" where
  "full_response t q =
     (if q = sao_paulo @ '',BR'' then Body (PDict sample_data) else HttpStatusError 404)"

definition full_env :: env where
  "full_env = mock_env\<lparr>http_get := full_response\<rparr>"

text \<open>A database whose connection is lost: no cursor can be opened.\<close>

definition lost :: "nat \<Rightarrow> db_result" where
  "lost t = DbError"

definition lost_connection_env :: env where
  "lost_connection_env = full_env\<lparr>db_cursor := lost\<rparr>"

text \<open>A database that rejects the rows of one city.\<close>

definition reject_city :: "string \<Rightarrow> nat \<Rightarrow> statement \<Rightarrow> db_result" where
  "reject_city name t st =
     (case st of
        CreateTables \<Rightarrow> Done
      | Insert row \<Rightarrow> if dict_get row ''city_name'' = PStr name then DbError else Done)"

text \<open>A city the providers above do not know, and a pipeline whose loader is connected.\<close>

definition atlantis :: string where
  "atlantis = ''Atlantis''"

definition with_connection :: "pipeline \<Rightarrow> pipeline" where
  "with_connection s = s\<lparr>connection := True\<rparr>"



section \<open>Outcome of one city\<close>

datatype outcome = ExtractionFailed | TransformationFailed | LoadRaised | LoadFailed | Loaded

text \<open>
  How far one city gets, read off the three stages: what the extractor returns at the
  tick of the call, what the transformer makes of it, and what the loader answers.
\<close>

definition city_outcome :: "env \<Rightarrow> pipeline \<Rightarrow> string \<Rightarrow> outcome" where
  "city_outcome e s city =
     (case extract_weather_data e (tick s) city ''BR'' of
        None \<Rightarrow> ExtractionFailed
      | Some raw_data \<Rightarrow>
          (case transform_weather_data (utcoffset e) (now_utc e (Suc (tick s))) raw_data of
             None \<Rightarrow> TransformationFailed
           | Some transformed \<Rightarrow>
               (case fst (load_weather_data e
                           (count_successful_extraction (s\<lparr>tick := Suc (tick s)\<rparr>))
                           (add_derived_fields transformed)) of
                  Inl ex \<Rightarrow> LoadRaised
                | Inr False \<Rightarrow> LoadFailed
                | Inr True \<Rightarrow> Loaded)))"




section \<open>Facts about dictionaries\<close>

lemma map_of_setitem: "map_of (setitem d k v) k' = (if k' = k then Some v else map_of d k')"
  by (simp add: setitem_def update_conv')

lemma keys_setitem: "keys (setitem d k v) = insert k (keys d)"
  by (simp add: setitem_def keys_def dom_update)


lemma truthy_num: "num_val v = Some x \<Longrightarrow> truthy v = (x \<noteq> 0)"
  by (cases v rule: num_val.cases) (auto split: if_splits)

lemma num_val_not_None: "num_val v = Some x \<Longrightarrow> v \<noteq> PNone"
  by (cases v) auto


lemma set_heat_index_frame:
  "set_heat_index temp humidity d = Inr d' \<Longrightarrow> k \<noteq> ''heat_index'' \<Longrightarrow> map_of d' k = map_of d k"
  by (auto simp: set_heat_index_def try_bind_def map_of_setitem split: if_splits sum.splits)

lemma set_temperature_category_frame:
  "set_temperature_category temp d = Inr d' \<Longrightarrow> k \<noteq> ''temperature_category'' \<Longrightarrow> map_of d' k = map_of d k"
  by (auto simp: set_temperature_category_def map_of_setitem split: if_splits option.splits)

lemma set_humidity_category_frame:
  "set_humidity_category humidity d = Inr d' \<Longrightarrow> k \<noteq> ''humidity_category'' \<Longrightarrow> map_of d' k = map_of d k"
  by (auto simp: set_humidity_category_def map_of_setitem split: if_splits option.splits)

lemma set_heat_index_keys:
  "set_heat_index temp humidity d = Inr d' \<Longrightarrow> keys d \<subseteq> keys d' \<and> keys d' \<subseteq> insert ''heat_index'' (keys d)"
  by (auto simp: set_heat_index_def try_bind_def keys_setitem split: if_splits sum.splits)

lemma set_temperature_category_keys:
  "set_temperature_category temp d = Inr d' \<Longrightarrow> keys d \<subseteq> keys d' \<and> keys d' \<subseteq> insert ''temperature_category'' (keys d)"
  by (auto simp: set_temperature_category_def keys_setitem split: if_splits option.splits)

lemma set_humidity_category_keys:
  "set_humidity_category humidity d = Inr d' \<Longrightarrow> keys d \<subseteq> keys d' \<and> keys d' \<subseteq> insert ''humidity_category'' (keys d)"
  by (auto simp: set_humidity_category_def keys_setitem split: if_splits option.splits)

lemma add_derived_fields_frame:
  "k \<notin> derived_keys \<Longrightarrow> map_of (add_derived_fields data) k = map_of data k"
  unfolding add_derived_fields_def Let_def derived_keys_def
  by (auto split: sum.splits dest!: set_heat_index_frame [where k = k]
      set_temperature_category_frame [where k = k] set_humidity_category_frame [where k = k])

lemma add_derived_fields_keys:
  "keys data \<subseteq> keys (add_derived_fields data) \<and> keys (add_derived_fields data) \<subseteq> keys data \<union> derived_keys"
  unfolding add_derived_fields_def Let_def derived_keys_def
  by (auto split: sum.splits dest!: set_heat_index_keys
      set_temperature_category_keys set_humidity_category_keys)


section \<open>Evaluating float arithmetic\<close>

lemma floor_rat_numeral [simp]:
  "\<lfloor>numeral a / numeral b :: rat\<rfloor> = numeral a div numeral b"
  using floor_divide_of_int_eq [of "numeral a" "numeral b", where ?'a = rat] by simp

lemma floor_rat_neg_numeral [simp]:
  "\<lfloor>- (numeral a / numeral b) :: rat\<rfloor> = - numeral a div numeral b"
  using floor_divide_of_int_eq [of "- numeral a" "numeral b", where ?'a = rat] by simp

lemma ceiling_rat_numeral [simp]:
  "\<lceil>numeral a / numeral b :: rat\<rceil> = - (- numeral a div numeral b)"
  unfolding ceiling_def by simp

lemmas float_defs = fl_def overflow_threshold_def nearest_double_def ulp_def log2_floor_def
  round_half_even_def pow2_def bit_length.simps






lemma heat_index_sample: "heat_index (PFloat (Finite (51 / 2))) (PInt 65) = Inr (PFloat (Finite 33))"
  by (simp add: heat_index_def mul_float_def add_float_def try_bind_def float_defs)

lemma heat_index_overflow: "heat_index (PInt (10 ^ 309)) (PInt 65) = Inl OverflowError"
  by (simp add: heat_index_def mul_float_def add_float_def try_bind_def float_defs)




section \<open>Derived fields: heat index, categories, frame\<close>






text \<open>
  C4 as stated fails where the expression has no value: the temperature 10^309 is
  present and truthy, the conversion of that \<open>int\<close> to a float raises, and the record
  comes back without \<open>heat_index\<close>.
\<close>

theorem add_derived_fields_heat_index_counterexample:
  "truthy (PInt (10 ^ 309)) \<and> truthy (PInt 65)
   \<and> map_of (add_derived_fields [(''temperature'', PInt (10 ^ 309)), (''humidity'', PInt 65)])
        ''heat_index'' = None"
  using heat_index_overflow
  by (simp add: add_derived_fields_def dict_get_default_def set_heat_index_def try_bind_def)





text \<open>
  C9, amended. Enrichment returns a dictionary on every input (the handler catches every
  exception of the body). It removes no key, adds no key other than \<open>heat_index\<close>,
  \<open>temperature_category\<close> and \<open>humidity_category\<close>, and leaves the value of every other
  key as it was. The three derived keys it may overwrite, and after an internal error the
  derived keys assigned before the error stay assigned.
\<close>

theorem add_derived_fields_frame_effect:
  "keys data \<subseteq> keys (add_derived_fields data)
   \<and> keys (add_derived_fields data) \<subseteq> keys data \<union> derived_keys
   \<and> (k \<notin> derived_keys \<longrightarrow> map_of (add_derived_fields data) k = map_of data k)"
  using add_derived_fields_keys [of data] add_derived_fields_frame [of k data]
  by blast

theorem add_derived_fields_frame_effect_witness:
  "''temperature'' \<notin> derived_keys
   \<and> keys sample_transformed_data \<subseteq> keys (add_derived_fields sample_transformed_data)
   \<and> keys (add_derived_fields sample_transformed_data)
        \<subseteq> keys sample_transformed_data \<union> derived_keys
   \<and> map_of (add_derived_fields sample_transformed_data) ''temperature'' =
        Some (PFloat (Finite (51 / 2)))"
  using add_derived_fields_frame_effect [of sample_transformed_data "''temperature''"]
  by (simp add: derived_keys_def sample_transformed_data_def)

text \<open>
  C9 as stated fails twice. The test fixture carries \<open>humidity_category\<close> Moderada with a
  humidity of 65, and enrichment changes that value to Alta. And with a temperature of 0
  and the humidity a string, the humidity comparison raises after
  \<open>temperature_category\<close> was assigned: the record comes back modified.
\<close>

theorem add_derived_fields_frame_effect_counterexample:
  "map_of sample_transformed_data ''humidity_category'' = Some (PStr ''Moderada'')
   \<and> map_of (add_derived_fields sample_transformed_data) ''humidity_category''
       = Some (PStr ''Alta'')
   \<and> set_humidity_category (PStr ''high'')
        [(''temperature'', PInt 0), (''humidity'', PStr ''high''),
         (''temperature_category'', PStr ''Frio'')] = Inl TypeError
   \<and> add_derived_fields [(''temperature'', PInt 0), (''humidity'', PStr ''high'')]
       = [(''temperature'', PInt 0), (''humidity'', PStr ''high''),
          (''temperature_category'', PStr ''Frio'')]"
  by (simp add: add_derived_fields_def dict_get_default_def set_heat_index_def
      set_temperature_category_def set_humidity_category_def temperature_category_def
      humidity_category_def sample_transformed_data_def setitem_def try_bind_def
      heat_index_sample)

section \<open>The canonical record\<close>

lemmas time_defs = fromtimestamp_isoformat.simps local_isoformat_def round_half_even_def
  isoformat_def civil_from_days_def year_of_def day_of_month_def month_of_def day_of_year_def
  year_of_era_def day_of_era_def date_string_def time_string_def
  pad2_def pad4_def pad6_def digit_def

lemma sample_timestamps_utc:
  "fromtimestamp_isoformat utc (PInt 1640995200) = Inr (PStr ''2022-01-01T00:00:00'')"
  "fromtimestamp_isoformat utc (PInt 1640944800) = Inr (PStr ''2021-12-31T10:00:00'')"
  by (simp_all add: time_defs utc_def)

lemma sample_timestamps_brt:
  "fromtimestamp_isoformat brt (PInt 1640995200) = Inr (PStr ''2021-12-31T21:00:00'')"
  "fromtimestamp_isoformat brt (PInt 1640944800) = Inr (PStr ''2021-12-31T07:00:00'')"
  by (simp_all add: time_defs brt_def)

lemmas transform_defs = transform_weather_data_def transformed_data_def
  validate_transformed_data_def try_bind_def optional_timestamp_def between_def
  required_fields_def dict_get_def dict_get_default_def dict_has_def

lemma transform_sample_data_utc:
  "transform_weather_data utc ''2024-01-01T12:00:01+00:00'' sample_data =
     Some [(''city_id'', PInt 3448439),
      (''city_name'', PStr sao_paulo),
      (''country_code'', PStr ''BR''),
      (''latitude'', float_lit (- 235475 / 10000)),
      (''longitude'', float_lit (- 466361 / 10000)),
      (''temperature'', PFloat (Finite (51 / 2))),
      (''temperature_feels_like'', float_lit (131 / 5)),
      (''temperature_min'', float_lit (231 / 10)),
      (''temperature_max'', float_lit (283 / 10)),
      (''pressure'', PInt 1013),
      (''humidity'', PInt 65),
      (''sea_level_pressure'', PNone),
      (''ground_level_pressure'', PNone),
      (''weather_main'', PStr ''Clear''),
      (''weather_description'', PStr (''c'' @ [CHR 0xC3, CHR 0xA9] @ ''u limpo'')),
      (''weather_icon'', PStr ''01d''),
      (''wind_speed'', PFloat (Finite (7 / 2))),
      (''wind_direction'', PInt 180),
      (''wind_gust'', PNone),
      (''cloudiness'', PInt 0),
      (''visibility'', PInt 10000),
      (''data_timestamp'', PStr ''2022-01-01T00:00:00''),
      (''sunrise'', PStr ''2021-12-31T10:00:00''),
      (''sunset'', PStr ''2022-01-01T00:00:00''),
      (''extracted_at'', PStr ''2024-01-01T12:00:00''),
      (''processed_at'', PStr ''2024-01-01T12:00:01+00:00''),
      (''timezone_offset'', PInt (- 10800))]"
  by (simp add: transform_defs sample_data_def sample_timestamps_utc)


lemma transform_sample_data_brt:
  "transform_weather_data brt ''2024-01-01T12:00:01+00:00'' sample_data =
     Some [(''city_id'', PInt 3448439),
      (''city_name'', PStr sao_paulo),
      (''country_code'', PStr ''BR''),
      (''latitude'', float_lit (- 235475 / 10000)),
      (''longitude'', float_lit (- 466361 / 10000)),
      (''temperature'', PFloat (Finite (51 / 2))),
      (''temperature_feels_like'', float_lit (131 / 5)),
      (''temperature_min'', float_lit (231 / 10)),
      (''temperature_max'', float_lit (283 / 10)),
      (''pressure'', PInt 1013),
      (''humidity'', PInt 65),
      (''sea_level_pressure'', PNone),
      (''ground_level_pressure'', PNone),
      (''weather_main'', PStr ''Clear''),
      (''weather_description'', PStr (''c'' @ [CHR 0xC3, CHR 0xA9] @ ''u limpo'')),
      (''weather_icon'', PStr ''01d''),
      (''wind_speed'', PFloat (Finite (7 / 2))),
      (''wind_direction'', PInt 180),
      (''wind_gust'', PNone),
      (''cloudiness'', PInt 0),
      (''visibility'', PInt 10000),
      (''data_timestamp'', PStr ''2021-12-31T21:00:00''),
      (''sunrise'', PStr ''2021-12-31T07:00:00''),
      (''sunset'', PStr ''2021-12-31T21:00:00''),
      (''extracted_at'', PStr ''2024-01-01T12:00:00''),
      (''processed_at'', PStr ''2024-01-01T12:00:01+00:00''),
      (''timezone_offset'', PInt (- 10800))]"
  by (simp add: transform_defs sample_data_def sample_timestamps_brt)


lemma try_bind_Inr:
  "try_bind m f = Inr y \<longleftrightarrow> (\<exists>x. m = Inr x \<and> f x = Inr y)"
  by (cases m) (simp_all add: try_bind_def)

lemma between_True:
  "between lo v hi = Inr True \<longleftrightarrow> (\<exists>x. num_val v = Some x \<and> of_int lo \<le> x \<and> x \<le> of_int hi)"
proof (cases v)
  case (PFloat x)
  then show ?thesis
    by (cases x) (simp_all add: between_def)
qed (auto simp: between_def)

lemma dict_get_default_not_None:
  "dict_get d k \<noteq> PNone \<Longrightarrow> dict_get_default d k dflt = dict_get d k"
  by (auto simp: dict_get_def dict_get_default_def split: option.splits)

lemma validate_transformed_data_True:
  assumes "validate_transformed_data data = Inr True"
  shows "(\<forall>field \<in> set required_fields. dict_get data field \<noteq> PNone)
         \<and> (\<exists>t. num_val (dict_get data ''temperature'') = Some t \<and> - 100 \<le> t \<and> t \<le> 60)
         \<and> (\<exists>h. num_val (dict_get data ''humidity'') = Some h \<and> 0 \<le> h \<and> h \<le> 100)"
proof -
  have req: "\<forall>field \<in> set required_fields. dict_get data field \<noteq> PNone"
    using assms by (auto simp: validate_transformed_data_def split: if_splits)
  then have t: "dict_get_default data ''temperature'' (PInt 0) = dict_get data ''temperature''"
    and h: "dict_get_default data ''humidity'' (PInt 0) = dict_get data ''humidity''"
    by (simp_all add: required_fields_def dict_get_default_not_None)
  from assms req have "between (- 100) (dict_get data ''temperature'') 60 = Inr True"
    and "between 0 (dict_get data ''humidity'') 100 = Inr True"
    unfolding validate_transformed_data_def t h
    by (auto simp: try_bind_Inr split: if_splits)
  then show ?thesis
    using req by (simp add: between_True)
qed

lemma transform_weather_data_Some:
  assumes "transform_weather_data tz now raw_data = Some data"
  shows "dict_has raw_data ''main''" and "transformed_data tz now raw_data = Inr data"
    and "validate_transformed_data data = Inr True"
  using assms by (auto simp: transform_weather_data_def split: if_splits sum.splits)

text \<open>
  C1, amended. Whenever \<open>transform\<close> returns a record, the payload has the main
  measurements section, the six required fields of the record are not \<open>None\<close>, its
  temperature is a number between -100 and 60 and its humidity a number between 0 and
  100; on every other payload it returns \<open>None\<close>. Nothing is required of the city name
  beyond not being \<open>None\<close>.
\<close>

theorem transform_weather_data_valid:
  assumes "transform_weather_data tz now raw_data = Some data"
  shows "dict_has raw_data ''main''
         \<and> (\<forall>field \<in> set required_fields. dict_get data field \<noteq> PNone)
         \<and> (\<exists>t. num_val (dict_get data ''temperature'') = Some t \<and> - 100 \<le> t \<and> t \<le> 60)
         \<and> (\<exists>h. num_val (dict_get data ''humidity'') = Some h \<and> 0 \<le> h \<and> h \<le> 100)"
  using transform_weather_data_Some [OF assms] validate_transformed_data_True [of data]
  by simp

theorem transform_weather_data_valid_witness:
  "transform_weather_data utc ''2024-01-01T12:00:01+00:00'' sample_data \<noteq> None
   \<and> dict_has sample_data ''main''
   \<and> field ''city_name'' (transform_weather_data utc ''2024-01-01T12:00:01+00:00'' sample_data)
       = Some (PStr sao_paulo)
   \<and> field ''temperature'' (transform_weather_data utc ''2024-01-01T12:00:01+00:00'' sample_data)
       = Some (PFloat (Finite (51 / 2)))
   \<and> field ''humidity'' (transform_weather_data utc ''2024-01-01T12:00:01+00:00'' sample_data)
       = Some (PInt 65)"
  using transform_weather_data_valid [OF transform_sample_data_utc]
  by (simp add: transform_sample_data_utc field_def)

text \<open>
  C1 as stated fails on the city name: validation only tests it against \<open>None\<close>, and a
  payload whose name is the empty string yields a record.
\<close>

theorem transform_weather_data_valid_counterexample:
  "field ''city_name'' (transform_weather_data utc ''2024-01-01T12:00:01+00:00'' empty_name_payload)
     = Some (PStr [])"
  by (simp add: field_def transform_defs empty_name_payload_def sample_timestamps_utc)

lemma optional_timestamp_falsy:
  "\<not> truthy (dict_get d k) \<Longrightarrow> optional_timestamp tz d k = Inr PNone"
  by (simp add: optional_timestamp_def)

lemma transform_sunrise_sunset_None:
  assumes "transform_weather_data tz now raw_data = Some data"
    and "dict_get_default raw_data ''sys'' (PDict []) = PDict sys_data"
  shows "\<not> truthy (dict_get sys_data ''sunrise'') \<longrightarrow> dict_get data ''sunrise'' = PNone"
    and "\<not> truthy (dict_get sys_data ''sunset'') \<longrightarrow> dict_get data ''sunset'' = PNone"
  using transform_weather_data_Some(2) [OF assms(1)] assms(2)
  by (auto simp: transformed_data_def try_bind_Inr optional_timestamp_falsy dict_get_def)

text \<open>
  C6. On a host whose local zone is three hours behind UTC, the payload of 2022-01-01
  00:00:00 UTC gets the observation time 2021-12-31T21:00:00: \<open>fromtimestamp\<close> is called
  without a zone and gives local time, where \<open>processed_at\<close> in the same record is taken
  in UTC. The same payload on a host in UTC gets 2022-01-01T00:00:00.
\<close>

theorem transform_weather_data_local_time:
  "field ''data_timestamp'' (transform_weather_data brt ''2024-01-01T12:00:01+00:00'' sample_data)
     = Some (PStr ''2021-12-31T21:00:00'')
   \<and> field ''sunrise'' (transform_weather_data brt ''2024-01-01T12:00:01+00:00'' sample_data)
     = Some (PStr ''2021-12-31T07:00:00'')
   \<and> field ''data_timestamp'' (transform_weather_data utc ''2024-01-01T12:00:01+00:00'' sample_data)
     = Some (PStr ''2022-01-01T00:00:00'')
   \<and> field ''processed_at'' (transform_weather_data brt ''2024-01-01T12:00:01+00:00'' sample_data)
     = Some (PStr ''2024-01-01T12:00:01+00:00'')"
  by (simp add: transform_sample_data_utc transform_sample_data_brt field_def)

section \<open>City names\<close>































































section \<open>Extractor\<close>

lemma fetch_nonempty: "fetch e t city cc = Inr d \<Longrightarrow> d \<noteq> []"
  by (auto simp: fetch_def setitem_def split: http_response.splits pyval.splits)

lemma extract_weather_data_nonempty: "extract_weather_data e t city cc = Some d \<Longrightarrow> d \<noteq> []"
  by (auto simp: extract_weather_data_def split: sum.splits dest: fetch_nonempty)

lemma extract_cities_Cons:
  "extract_cities e t acc (c # cs) =
     extract_cities e (Suc t)
       (case extract_weather_data e t c ''BR'' of None \<Rightarrow> acc | Some d \<Rightarrow> AList.update c d acc) cs"
  by (auto split: option.splits dest: extract_weather_data_nonempty)

lemma extract_cities_map_of:
  "map_of (extract_cities e t acc cs) c = Some d \<Longrightarrow>
     map_of acc c = Some d
     \<or> (\<exists>i<length cs. cs ! i = c \<and> extract_weather_data e (t + i) c ''BR'' = Some d)"
proof (induction cs arbitrary: t acc)
  case Nil
  then show ?case by simp
next
  case (Cons a cs)
  let ?acc = "case extract_weather_data e t a ''BR'' of None \<Rightarrow> acc | Some d \<Rightarrow> AList.update a d acc"
  from Cons.prems have "map_of (extract_cities e (Suc t) ?acc cs) c = Some d"
    by (simp only: extract_cities_Cons)
  from Cons.IH [OF this] show ?case
  proof
    assume "map_of ?acc c = Some d"
    then have "map_of acc c = Some d \<or> (a = c \<and> extract_weather_data e t c ''BR'' = Some d)"
      by (auto simp: update_conv' split: option.splits if_splits)
    then show ?thesis by (auto simp: Ex_less_Suc2)
  next
    assume "\<exists>i<length cs. cs ! i = c \<and> extract_weather_data e (Suc t + i) c ''BR'' = Some d"
    then show ?thesis by (auto simp: Ex_less_Suc2)
  qed
qed

lemma extract_cities_keeps: "k \<in> fst ` set acc \<Longrightarrow> k \<in> fst ` set (extract_cities e t acc cs)"
proof (induction cs arbitrary: t acc)
  case Nil
  then show ?case by simp
next
  case (Cons a cs)
  have "k \<in> fst ` set (case extract_weather_data e t a ''BR'' of None \<Rightarrow> acc | Some d \<Rightarrow> AList.update a d acc)"
    using Cons.prems by (auto simp: dom_update split: option.splits)
  then show ?case
    by (simp only: extract_cities_Cons Cons.IH)
qed

lemma extract_cities_success:
  "i < length cs \<Longrightarrow> extract_weather_data e (t + i) (cs ! i) ''BR'' \<noteq> None \<Longrightarrow>
     cs ! i \<in> fst ` set (extract_cities e t acc cs)"
proof (induction cs arbitrary: t acc i)
  case Nil
  then show ?case by simp
next
  case (Cons a cs)
  show ?case
  proof (cases i)
    case 0
    with Cons.prems obtain d where "extract_weather_data e t a ''BR'' = Some d"
      by auto
    then have "a \<in> fst ` set (case extract_weather_data e t a ''BR'' of None \<Rightarrow> acc | Some d \<Rightarrow> AList.update a d acc)"
      by (simp add: dom_update)
    then show ?thesis
      using 0 by (simp only: extract_cities_Cons nth_Cons_0 extract_cities_keeps)
  next
    case (Suc j)
    with Cons.prems have "j < length cs"
      and "extract_weather_data e (Suc t + j) (cs ! j) ''BR'' \<noteq> None"
      by simp_all
    then have "cs ! j \<in> fst ` set (extract_cities e (Suc t)
        (case extract_weather_data e t a ''BR'' of None \<Rightarrow> acc | Some d \<Rightarrow> AList.update a d acc) cs)"
      by (rule Cons.IH)
    then show ?thesis
      using Suc by (simp only: extract_cities_Cons nth_Cons_Suc)
  qed
qed

text \<open>
  C7. A city is a key of the mapping that \<open>extract_many\<close> returns exactly when one of
  its extractions succeeded (the \<open>i\<close>-th city of the list is asked at the \<open>i\<close>-th call,
  whatever happened to the cities before it), and the value under the key is the
  observation of such an extraction. The function returns a mapping on every input: a
  failed extraction is \<open>None\<close>, never an exception.
\<close>

theorem extract_multiple_cities_keys:
  "(c \<in> fst ` set (extract_multiple_cities e t cs) \<longleftrightarrow>
      (\<exists>i<length cs. cs ! i = c \<and> extract_weather_data e (t + i) c ''BR'' \<noteq> None))
   \<and> (map_of (extract_multiple_cities e t cs) c = Some d \<longrightarrow>
      (\<exists>i<length cs. cs ! i = c \<and> extract_weather_data e (t + i) c ''BR'' = Some d))"
proof (intro conjI iffI impI)
  assume "c \<in> fst ` set (extract_multiple_cities e t cs)"
  then obtain d where "map_of (extract_multiple_cities e t cs) c = Some d"
    by (metis domD dom_map_of_conv_image_fst)
  then show "\<exists>i<length cs. cs ! i = c \<and> extract_weather_data e (t + i) c ''BR'' \<noteq> None"
    using extract_cities_map_of [of e t "[]" cs c d]
    by (auto simp: extract_multiple_cities_def)
next
  assume "\<exists>i<length cs. cs ! i = c \<and> extract_weather_data e (t + i) c ''BR'' \<noteq> None"
  then show "c \<in> fst ` set (extract_multiple_cities e t cs)"
    using extract_cities_success [of _ cs e t "[]"]
    by (auto simp: extract_multiple_cities_def)
next
  assume "map_of (extract_multiple_cities e t cs) c = Some d"
  then show "\<exists>i<length cs. cs ! i = c \<and> extract_weather_data e (t + i) c ''BR'' = Some d"
    using extract_cities_map_of [of e t "[]" cs c d]
    by (auto simp: extract_multiple_cities_def)
qed

lemma mock_extractions:
  "extract_weather_data mock_env t atlantis ''BR'' = None"
  "extract_weather_data mock_env t sao_paulo ''BR'' =
     Some [(''name'', PStr sao_paulo), (''main'', PDict [(''temp'', PFloat (Finite (51 / 2)))]),
           (''cod'', PInt 200), (''extracted_at'', PStr (now_utc mock_env t))]"
  by (simp_all add: extract_weather_data_def fetch_def mock_env_def mock_response_def
      atlantis_def sao_paulo_def setitem_def)

theorem extract_multiple_cities_keys_witness:
  "fst ` set (extract_multiple_cities mock_env 0 [atlantis, sao_paulo]) = {sao_paulo}
   \<and> extract_weather_data mock_env 0 atlantis ''BR'' = None
   \<and> extract_weather_data mock_env 1 sao_paulo ''BR'' \<noteq> None
   \<and> sao_paulo \<in> fst ` set (extract_multiple_cities mock_env 0 [atlantis, sao_paulo])
   \<and> atlantis \<notin> fst ` set (extract_multiple_cities mock_env 0 [atlantis, sao_paulo])"
proof -
  have ne: "atlantis \<noteq> sao_paulo"
    by (simp add: atlantis_def sao_paulo_def)
  have a: "sao_paulo \<in> fst ` set (extract_multiple_cities mock_env 0 [atlantis, sao_paulo])"
    using extract_multiple_cities_keys [of sao_paulo mock_env 0 "[atlantis, sao_paulo]"]
      mock_extractions ne by (auto simp: Ex_less_Suc2)
  have b: "atlantis \<notin> fst ` set (extract_multiple_cities mock_env 0 [atlantis, sao_paulo])"
    using extract_multiple_cities_keys [of atlantis mock_env 0 "[atlantis, sao_paulo]"]
      mock_extractions ne by (auto simp: Ex_less_Suc2)
  have c: "fst ` set (extract_multiple_cities mock_env 0 [atlantis, sao_paulo]) = {sao_paulo}"
    using mock_extractions ne
    by (simp add: extract_multiple_cities_def)
  show ?thesis
    using a b c mock_extractions by simp
qed


section \<open>Loader\<close>

lemma parse_timestamp_unparseable:
  "\<not> fromisoformat_ok e (replace_Z s) \<Longrightarrow> parse_timestamp e (PStr s) = PNone"
  by (simp add: parse_timestamp_def)

lemma load_weather_data_returns:
  assumes "connection s" and "db_cursor e (tick s) = Done"
  shows "\<exists>ok. fst (load_weather_data e s data) = Inr ok
           \<and> connection (snd (load_weather_data e s data))
           \<and> tick (snd (load_weather_data e s data)) = Suc (tick s)"
  using assms by (auto simp: load_weather_data_def split: db_result.splits)

lemma load_records_returns:
  "connection s \<Longrightarrow> \<forall>t. db_cursor e t = Done \<Longrightarrow>
     \<exists>k \<le> length data_list. fst (load_records e s n data_list) = Inr (n + k)"
proof (induction data_list arbitrary: s n)
  case Nil
  then show ?case by simp
next
  case (Cons data data_list)
  obtain r s' where l: "load_weather_data e s data = (r, s')"
    by (cases "load_weather_data e s data")
  with load_weather_data_returns [of s e data] Cons.prems
  obtain ok where ok: "r = Inr ok" and c: "connection s'"
    by auto
  obtain k where "k \<le> length data_list"
    and "fst (load_records e s' (if ok then n + 1 else n) data_list) = Inr ((if ok then n + 1 else n) + k)"
    using Cons.IH [OF c Cons.prems(2)] by blast
  then show ?case
    using l ok by (cases ok) (auto intro: exI [of _ "Suc k"] exI [of _ k])
qed

text \<open>
  C8. With a database whose connection is lost, \<open>insert\<close> does not return a boolean: it
  leaves by \<open>UnboundLocalError\<close>, and \<open>insert_many\<close>, which has no handler, ends with
  that exception at the first record instead of a count. The same happens when the loader
  was never connected. With a database that opens cursors and rejects one row, the batch
  goes on and the count is returned.
\<close>

theorem load_multiple_records_aborts:
  "fst (load_weather_data lost_connection_env (with_connection (new_pipeline [])) sample_transformed_data)
     = Inl UnboundLocalError
   \<and> fst (load_multiple_records lost_connection_env (with_connection (new_pipeline []))
            [sample_transformed_data, sample_transformed_data])
     = Inl UnboundLocalError
   \<and> fst (load_weather_data full_env (new_pipeline []) sample_transformed_data)
     = Inl UnboundLocalError
   \<and> fst (load_multiple_records (full_env\<lparr>db_execute := reject_city atlantis\<rparr>)
            (with_connection (new_pipeline [])) [[(''city_name'', PStr atlantis)], sample_transformed_data])
     = Inr 1"
  by (simp add: load_multiple_records_def load_weather_data_def lost_connection_env_def
      full_env_def mock_env_def with_connection_def new_pipeline_def lost_def accept_all_def
      reject_city_def prepare_data_for_insert_def timestamp_fields_def dict_has_def
      dict_get_def setitem_def sample_transformed_data_def atlantis_def sao_paulo_def)


section \<open>Pipeline: one city\<close>

lemma transform_weather_data_nonempty:
  "transform_weather_data tz now raw = Some d \<Longrightarrow> d \<noteq> []"
  using transform_weather_data_Some(2) [of tz now raw d]
  by (auto simp: transformed_data_def try_bind_Inr)

lemma load_weather_data_frame:
  "stats (snd (load_weather_data e s d)) = stats s"
  "cities (snd (load_weather_data e s d)) = cities s"
  "connection (snd (load_weather_data e s d)) = connection s"
  by (auto simp: load_weather_data_def split: db_result.splits)

lemmas count_defs = count_failed_extraction_def count_successful_extraction_def
  count_failed_load_def count_successful_load_def

lemma load_step_eq:
  "load_step e s d =
     (case fst (load_weather_data e s d) of
        Inl ex \<Rightarrow> (False, snd (load_weather_data e s d))
      | Inr False \<Rightarrow> (False, count_failed_load (snd (load_weather_data e s d)))
      | Inr True \<Rightarrow> (True, count_successful_load (snd (load_weather_data e s d))))"
  by (cases "load_weather_data e s d") (auto simp: load_step_def split: sum.splits bool.splits)

text \<open>
  C3, amended. \<open>run_one\<close> returns true exactly when the city is loaded, and the counters
  change as follows and in no other way: a failed extraction adds one to
  \<open>failed_extractions\<close>; a successful extraction adds one to \<open>successful_extractions\<close>
  at once, whatever happens afterwards; a failed transformation adds nothing more; a load
  that returns false adds one to \<open>failed_loads\<close>; a load that returns true adds one to
  \<open>successful_loads\<close>.
\<close>

theorem run_etl_for_city_counters:
  "fst (run_etl_for_city e s city) = (city_outcome e s city = Loaded)
   \<and> stats (snd (run_etl_for_city e s city)) =
       (case city_outcome e s city of
          ExtractionFailed \<Rightarrow>
            (stats s)\<lparr>failed_extractions := failed_extractions (stats s) + 1\<rparr>
        | TransformationFailed \<Rightarrow>
            (stats s)\<lparr>successful_extractions := successful_extractions (stats s) + 1\<rparr>
        | LoadRaised \<Rightarrow>
            (stats s)\<lparr>successful_extractions := successful_extractions (stats s) + 1\<rparr>
        | LoadFailed \<Rightarrow>
            (stats s)\<lparr>successful_extractions := successful_extractions (stats s) + 1,
                       failed_loads := failed_loads (stats s) + 1\<rparr>
        | Loaded \<Rightarrow>
            (stats s)\<lparr>successful_extractions := successful_extractions (stats s) + 1,
                       successful_loads := successful_loads (stats s) + 1\<rparr>)"
proof (cases "extract_weather_data e (tick s) city ''BR''")
  case None
  then show ?thesis
    by (simp add: run_etl_for_city_def city_outcome_def count_defs)
next
  case (Some raw_data)
  then have ne: "raw_data \<noteq> []"
    by (rule extract_weather_data_nonempty)
  let ?s1 = "count_successful_extraction (s\<lparr>tick := Suc (tick s)\<rparr>)"
  have t1: "tick ?s1 = Suc (tick s)"
    by (simp add: count_defs)
  show ?thesis
  proof (cases "transform_weather_data (utcoffset e) (now_utc e (Suc (tick s))) raw_data")
    case None
    then show ?thesis
      using Some ne by (simp add: run_etl_for_city_def city_outcome_def transform_step_def t1 count_defs)
  next
    case (Some transformed)
    then have "transformed \<noteq> []"
      by (rule transform_weather_data_nonempty)
    then have r: "run_etl_for_city e s city = load_step e ?s1 (add_derived_fields transformed)"
      using \<open>extract_weather_data e (tick s) city ''BR'' = Some raw_data\<close> ne Some
      by (simp add: run_etl_for_city_def transform_step_def t1)
    show ?thesis
      unfolding r load_step_eq
      using \<open>extract_weather_data e (tick s) city ''BR'' = Some raw_data\<close> Some
      by (auto simp: city_outcome_def load_weather_data_frame count_defs
          split: sum.splits bool.splits)
  qed
qed

lemma epoch_utc: "fromtimestamp_isoformat utc (PInt 0) = Inr (PStr ''1970-01-01T00:00:00'')"
  by (simp add: time_defs utc_def)

lemma mock_transform_fails:
  "transform_weather_data utc now
     [(''name'', PStr sao_paulo), (''main'', PDict [(''temp'', PFloat (Finite (51 / 2)))]),
      (''cod'', PInt 200), (''extracted_at'', x)] = None"
  by (simp add: transform_defs epoch_utc)

lemma mock_env_fields: "utcoffset mock_env = utc" "tick (with_connection (new_pipeline cs)) = 0"
  by (simp_all add: mock_env_def with_connection_def new_pipeline_def)

theorem run_etl_for_city_counters_witness:
  "city_outcome mock_env (with_connection (new_pipeline [atlantis])) atlantis = ExtractionFailed
   \<and> fst (run_etl_for_city mock_env (with_connection (new_pipeline [atlantis])) atlantis) = False
   \<and> failed_extractions (stats (snd (run_etl_for_city mock_env (with_connection (new_pipeline [atlantis])) atlantis))) = 1
   \<and> successful_extractions (stats (snd (run_etl_for_city mock_env (with_connection (new_pipeline [atlantis])) atlantis))) = 0"
  using run_etl_for_city_counters [of mock_env "with_connection (new_pipeline [atlantis])" atlantis]
  by (simp add: city_outcome_def mock_extractions mock_env_fields)
     (simp add: with_connection_def new_pipeline_def)

text \<open>
  C3 as stated fails where the transformation fails. With the provider of the tests the
  extraction of the one known city succeeds and the transformation of its body fails (the
  body names no country): \<open>run_one\<close> returns false and \<open>successful_extractions\<close> is 1.
\<close>

theorem run_etl_for_city_counters_counterexample:
  "extract_weather_data mock_env 0 sao_paulo ''BR'' \<noteq> None
   \<and> city_outcome mock_env (with_connection (new_pipeline [sao_paulo])) sao_paulo = TransformationFailed
   \<and> fst (run_etl_for_city mock_env (with_connection (new_pipeline [sao_paulo])) sao_paulo) = False
   \<and> successful_extractions
        (stats (snd (run_etl_for_city mock_env (with_connection (new_pipeline [sao_paulo])) sao_paulo))) = 1"
  by (simp add: city_outcome_def run_etl_for_city_def transform_step_def mock_extractions
      mock_env_fields mock_transform_fails count_defs)
     (simp add: with_connection_def new_pipeline_def)


section \<open>Pipeline: a full run\<close>






















end
